theory Spec2Isabelle
  imports Complex_Main
begin

section \<open>Numbers and the noise primitive\<close>

text \<open>
  The program computes on JavaScript numbers (host side) and GLSL floats (fragment
  shaders). The functions are given first in exact arithmetic, on \<^typ>\<open>real\<close>: every
  operation is exact, every value is finite, and the literal \<open>0.1\<close> is the real number
  one tenth. This form states the structure of the computation, the calls it makes and
  the ranges of its results. Whether two computations return the same number depends on
  the rounding of the machine; for that the sampling functions are given a second time,
  further down, with the rounding of every result as a parameter.

  The host-side primitive \<open>noise3D\<close> is the function returned by the library call
  \<open>createNoise3D(Math.random)\<close>. The library is not part of the program, so the
  primitive is a parameter of every host-side function: a pure function of three numbers.
\<close>

type_synonym noise = "real \<Rightarrow> real \<Rightarrow> real \<Rightarrow> real"

text \<open>
  To count evaluations, the model threads a log through the calls: \<open>samples\<close> holds the
  argument tuple of every call of \<open>perlinNoise\<close>, \<open>evals\<close> the argument triple of every
  evaluation of the primitive, both in the order in which the calls happen.
\<close>

record trace =
  samples :: "(real \<times> real \<times> real \<times> real) list"
  evals :: "(real \<times> real \<times> real) list"

definition no_calls :: trace where
  "no_calls = \<lparr>samples = [], evals = []\<rparr>"


section \<open>The host-side sampling function\<close>

text \<open>
  The local variables of \<open>perlinNoise\<close> that the loop updates. The variable \<open>total\<close> of
  the source is the field \<open>total_acc\<close>. The host-side loop carries the log as well.
\<close>

record octaves =
  total_acc :: real
  frequency :: real
  amplitude :: real
  maxVal :: real

record traced_octaves = octaves +
  log :: trace

text \<open>
  \<^verbatim>\<open>for (let i = 0; i < 4; i++) {
      total += noise3D(scaledX * frequency, scaledY * frequency, scaledZ * frequency) * amplitude;
      maxVal += amplitude;
      amplitude *= 0.5;
      frequency *= 2;
  }\<close>
  Every right-hand side reads variables that the body has not yet changed, so the four
  assignments are one record update from the state at the start of the iteration.
\<close>

function perlinNoise_loop :: "noise \<Rightarrow> real \<Rightarrow> real \<Rightarrow> real \<Rightarrow> nat \<Rightarrow> traced_octaves \<Rightarrow> traced_octaves" where
  "perlinNoise_loop noise3D scaledX scaledY scaledZ i st =
     (if i < 4 then
        perlinNoise_loop noise3D scaledX scaledY scaledZ (i + 1)
          (st\<lparr>total_acc := total_acc st
                 + noise3D (scaledX * frequency st) (scaledY * frequency st) (scaledZ * frequency st)
                   * amplitude st,
              maxVal := maxVal st + amplitude st,
              amplitude := amplitude st * 0.5,
              frequency := frequency st * 2,
              log := (log st)\<lparr>evals := evals (log st)
                 @ [(scaledX * frequency st, scaledY * frequency st, scaledZ * frequency st)]\<rparr>\<rparr>)
      else st)"
  by pat_completeness auto
termination
  by (relation "measure (\<lambda>(noise3D, scaledX, scaledY, scaledZ, i, st). 4 - i)") auto

declare perlinNoise_loop.simps [simp del]

text \<open>
  \<open>perlinNoise(x, y, z, seed)\<close>, with the log before the call as a further argument and
  the log after it as a second result.
\<close>

definition perlinNoise_tr :: "noise \<Rightarrow> real \<Rightarrow> real \<Rightarrow> real \<Rightarrow> real \<Rightarrow> trace \<Rightarrow> real \<times> trace" where
  "perlinNoise_tr noise3D x y z seed tr =
     (let scaledX = x * 0.1 + seed;
          scaledY = y * 0.1 + seed;
          scaledZ = z * 0.1 + seed;
          st = perlinNoise_loop noise3D scaledX scaledY scaledZ 0
                 \<lparr>total_acc = 0, frequency = 1, amplitude = 1, maxVal = 0,
                  log = tr\<lparr>samples := samples tr @ [(x, y, z, seed)]\<rparr>\<rparr>
      in ((total_acc st / maxVal st + 1) / 2, log st))"

text \<open>The value alone.\<close>

definition perlinNoise :: "noise \<Rightarrow> real \<Rightarrow> real \<Rightarrow> real \<Rightarrow> real \<Rightarrow> real" where
  "perlinNoise noise3D x y z seed = fst (perlinNoise_tr noise3D x y z seed no_calls)"

text \<open>
  A primitive with values in the native range \<open>[-1, 1]\<close>, on which the functions are
  run at concrete inputs.
\<close>

definition two_level :: noise where
  "two_level a b c = (if a < 5 then - 1 else 1 / 2)"


section \<open>The property generator\<close>

text \<open>
  A value stored in the returned object is a number or a \<open>BABYLON.Color3\<close> built from
  three numbers. The object literal is modelled as the list of its properties, name and
  value, in the order of the source; reading a property by name is \<open>property\<close>, and
  a name the object does not have reads as \<open>None\<close> (JavaScript's \<open>undefined\<close>).
\<close>

datatype jsval = Num real | Color3 real real real

type_synonym jsobject = "(string \<times> jsval) list"

definition property :: "jsobject \<Rightarrow> string \<Rightarrow> jsval option" where
  "property obj name = map_of obj name"

text \<open>
  \<open>generatePlanetProperties(seed)\<close>. JavaScript evaluates the statements in order and
  the arguments of a call from left to right, so the calls of \<open>perlinNoise\<close> happen in
  the order in which the source writes them.
\<close>

definition generatePlanetProperties_tr :: "noise \<Rightarrow> real \<Rightarrow> trace \<Rightarrow> jsobject \<times> trace" where
  "generatePlanetProperties_tr noise3D seed t0 =
     (let (r1, t1) = perlinNoise_tr noise3D seed 10 20 seed t0;
          (g1, t2) = perlinNoise_tr noise3D seed 30 40 seed t1;
          (b1, t3) = perlinNoise_tr noise3D seed 50 60 seed t2;
          baseColor = Color3 r1 g1 b1;
          (n4, t4) = perlinNoise_tr noise3D seed 70 80 seed t3;
          reflectance = n4 * 0.8;
          (n5, t5) = perlinNoise_tr noise3D seed 90 100 seed t4;
          emission = n5 * 0.2;
          (n6, t6) = perlinNoise_tr noise3D seed 110 120 seed t5;
          atmosphere = n6 * 0.5;
          (r7, t7) = perlinNoise_tr noise3D seed 130 140 seed t6;
          (g8, t8) = perlinNoise_tr noise3D seed 150 160 seed t7;
          (b9, t9) = perlinNoise_tr noise3D seed 170 180 seed t8;
          atmosphereColor = Color3 r7 g8 b9;
          (r10, t10) = perlinNoise_tr noise3D seed 190 200 seed t9;
          (g11, t11) = perlinNoise_tr noise3D seed 210 220 seed t10;
          (b12, t12) = perlinNoise_tr noise3D seed 230 240 seed t11;
          seaColor = Color3 r10 g11 b12;
          (n13, t13) = perlinNoise_tr noise3D seed 250 260 seed t12;
          landPct = n13 * 0.8
      in ([(''baseColor'', baseColor),
           (''reflectance'', Num reflectance),
           (''emission'', Num emission),
           (''atmosphere'', Num atmosphere),
           (''atmosphereColor'', atmosphereColor),
           (''seaColor'', seaColor),
           (''landPct'', Num landPct),
           (''seed'', Num seed)], t13))"

definition generatePlanetProperties :: "noise \<Rightarrow> real \<Rightarrow> jsobject" where
  "generatePlanetProperties noise3D seed = fst (generatePlanetProperties_tr noise3D seed no_calls)"

text \<open>Range checks on a property, as the test suite writes them on the returned object.\<close>

definition num_between :: "jsobject \<Rightarrow> string \<Rightarrow> real \<Rightarrow> real \<Rightarrow> bool" where
  "num_between obj name lo hi =
     (case property obj name of
        Some (Num v) \<Rightarrow> lo \<le> v \<and> v \<le> hi
      | _ \<Rightarrow> False)"

definition color_in_unit :: "jsobject \<Rightarrow> string \<Rightarrow> bool" where
  "color_in_unit obj name =
     (case property obj name of
        Some (Color3 r g b) \<Rightarrow> 0 \<le> r \<and> r \<le> 1 \<and> 0 \<le> g \<and> g \<le> 1 \<and> 0 \<le> b \<and> b \<le> 1
      | _ \<Rightarrow> False)"


section \<open>The fragment shaders\<close>

subsection \<open>GLSL vectors\<close>

datatype vec3 = Vec3 (vx: real) (vy: real) (vz: real)

datatype vec4 = Vec4 (wx: real) (wy: real) (wz: real) (ww: real)

text \<open>The constructor \<open>vec3(s)\<close> from one float.\<close>

definition vec3s :: "real \<Rightarrow> vec3" where
  "vec3s s = Vec3 s s s"

fun add3 :: "vec3 \<Rightarrow> vec3 \<Rightarrow> vec3" where
  "add3 (Vec3 a b c) (Vec3 d e f) = Vec3 (a + d) (b + e) (c + f)"

fun sub3 :: "vec3 \<Rightarrow> vec3 \<Rightarrow> vec3" where
  "sub3 (Vec3 a b c) (Vec3 d e f) = Vec3 (a - d) (b - e) (c - f)"

text \<open>A vector and a float: the float acts on every component.\<close>

fun add3s :: "vec3 \<Rightarrow> real \<Rightarrow> vec3" where
  "add3s (Vec3 a b c) s = Vec3 (a + s) (b + s) (c + s)"

fun sub3s :: "vec3 \<Rightarrow> real \<Rightarrow> vec3" where
  "sub3s (Vec3 a b c) s = Vec3 (a - s) (b - s) (c - s)"

fun ssub3 :: "real \<Rightarrow> vec3 \<Rightarrow> vec3" where
  "ssub3 s (Vec3 a b c) = Vec3 (s - a) (s - b) (s - c)"

fun mul3s :: "vec3 \<Rightarrow> real \<Rightarrow> vec3" where
  "mul3s (Vec3 a b c) s = Vec3 (a * s) (b * s) (c * s)"

fun smul3 :: "real \<Rightarrow> vec3 \<Rightarrow> vec3" where
  "smul3 s (Vec3 a b c) = Vec3 (s * a) (s * b) (s * c)"

fun dot3 :: "vec3 \<Rightarrow> vec3 \<Rightarrow> real" where
  "dot3 (Vec3 a b c) (Vec3 d e f) = a * d + b * e + c * f"

fun floor3 :: "vec3 \<Rightarrow> vec3" where
  "floor3 (Vec3 a b c) = Vec3 (of_int \<lfloor>a\<rfloor>) (of_int \<lfloor>b\<rfloor>) (of_int \<lfloor>c\<rfloor>)"

text \<open>\<open>step(edge, x)\<close> is 0.0 where \<open>x < edge\<close> and 1.0 elsewhere.\<close>

definition step :: "real \<Rightarrow> real \<Rightarrow> real" where
  "step edge x = (if x < edge then 0 else 1)"

fun step3 :: "vec3 \<Rightarrow> vec3 \<Rightarrow> vec3" where
  "step3 (Vec3 a b c) (Vec3 d e f) = Vec3 (step a d) (step b e) (step c f)"

fun min3 :: "vec3 \<Rightarrow> vec3 \<Rightarrow> vec3" where
  "min3 (Vec3 a b c) (Vec3 d e f) = Vec3 (min a d) (min b e) (min c f)"

fun max3 :: "vec3 \<Rightarrow> vec3 \<Rightarrow> vec3" where
  "max3 (Vec3 a b c) (Vec3 d e f) = Vec3 (max a d) (max b e) (max c f)"

text \<open>The swizzles \<open>.yzx\<close> and \<open>.zxy\<close>.\<close>

fun yzx :: "vec3 \<Rightarrow> vec3" where
  "yzx (Vec3 a b c) = Vec3 b c a"

fun zxy :: "vec3 \<Rightarrow> vec3" where
  "zxy (Vec3 a b c) = Vec3 c a b"

fun max3s :: "vec3 \<Rightarrow> real \<Rightarrow> vec3" where
  "max3s (Vec3 a b c) s = Vec3 (max a s) (max b s) (max c s)"

fun ssub4 :: "real \<Rightarrow> vec4 \<Rightarrow> vec4" where
  "ssub4 s (Vec4 a b c d) = Vec4 (s - a) (s - b) (s - c) (s - d)"

fun max4s :: "vec4 \<Rightarrow> real \<Rightarrow> vec4" where
  "max4s (Vec4 a b c d) s = Vec4 (max a s) (max b s) (max c s) (max d s)"

fun mul4 :: "vec4 \<Rightarrow> vec4 \<Rightarrow> vec4" where
  "mul4 (Vec4 a b c d) (Vec4 e f g h) = Vec4 (a * e) (b * f) (c * g) (d * h)"

fun dot4 :: "vec4 \<Rightarrow> vec4 \<Rightarrow> real" where
  "dot4 (Vec4 a b c d) (Vec4 e f g h) = a * e + b * f + c * g + d * h"

subsection \<open>The primitive of the first variant\<close>

text \<open>
  \<^verbatim>\<open>vec3 mod289_vec3(vec3 x) { return x - floor(x * (1.0 / 289.0)) * 289.0; }
  float permute(float x) { return mod289_vec3(vec3(((x*34.0)+1.0)*x)).x; }\<close>
\<close>

definition mod289_vec3 :: "vec3 \<Rightarrow> vec3" where
  "mod289_vec3 x = sub3 x (mul3s (floor3 (mul3s x (1 / 289))) 289)"

definition permute :: "real \<Rightarrow> real" where
  "permute x = vx (mod289_vec3 (vec3s (((x * 34) + 1) * x)))"

text \<open>
  \<open>snoise\<close> as the planet and moon fragment shaders of the first variant write it (the
  same text in both); here \<open>snoise1\<close>. The constant \<open>D\<close> and the locals \<open>x\<close>, \<open>y\<close>,
  \<open>z\<close> are never read, and are left out; \<open>n\<close> is built at once from its four
  components, and the two values of \<open>i\<close> and of \<open>m\<close> are \<open>i\<close>, \<open>i'\<close> and \<open>m\<close>, \<open>m'\<close>.
  \<^verbatim>\<open>const vec2  C = vec2(1.0/6.0, 1.0/3.0) ;
  vec3 i  = floor(v + dot(v, C.yyy) );
  vec3 x0 =   v - i + dot(i, C.xxx) ;
  vec3 i1;
  i1 = (x0.x > x0.y) ? (x0.x > x0.z ? vec3(1.0, 0.0, 0.0) : vec3(0.0, 0.0, 1.0))
                     : (x0.y > x0.z ? vec3(0.0, 1.0, 0.0) : vec3(0.0, 0.0, 1.0));
  vec3 i2 = vec3(1.0, 1.0, 1.0) - i1;
  vec3 x1 = x0 - i1 + 1.0 * C.xxx;
  vec3 x2 = x0 - i2 + 2.0 * C.xxx;
  vec3 x3 = x0 - 1.0 + 3.0 * C.xxx;
  i = mod289_vec3(i);
  float i_x = permute(permute(i.z) + i.y);
  float i_xy = permute(i_x + i.x);
  float i_xz = permute(i_x + i.z);
  float i_yz = permute(permute(i.x) + i.y);
  float i_xyz = permute(i_yz + i.z);
  float i_zy = permute(permute(i.x) + i.z);
  float i_zyx = permute(i_zy + i.y);
  vec4 ii = vec4(i_xy, i_xz, i_yz, i_xyz);
  vec4 j = vec4(i_zyx, i_zy, i_x, i.y);
  vec4 g0 = vec4(permute(ii.x + j.x), permute(ii.y + j.y), permute(ii.z + j.z), permute(ii.w + j.w));
  vec4 g1 = vec4(permute(g0.x + j.x), permute(g0.y + j.y), permute(g0.z + j.z), permute(g0.w + j.w));
  vec4 g2 = vec4(permute(g1.x + j.x), permute(g1.y + j.y), permute(g1.z + j.z), permute(g1.w + j.w));
  vec4 g3 = vec4(permute(g2.x + j.x), permute(g2.y + j.y), permute(g2.z + j.z), permute(g2.w + j.w));
  vec4 g = vec4(g0.x, g1.x, g2.x, g3.x);
  vec4 n = vec4(0.0, 0.0, 0.0, 0.0);
  vec3  m = max(0.6 - vec3(dot(x0,x0), dot(x1,x1), dot(x2,x2)), 0.0);
  n.x = m.x * m.x * dot(g, vec4(x0.x, x0.y, x0.z, 0.0));
  m = max(0.6 - vec3(dot(x1,x1), dot(x2,x2), dot(x3,x3)), 0.0);
  n.y = m.x * m.x * dot(g, vec4(x1.x, x1.y, x1.z, 0.0));
  n.z = m.y * m.y * dot(g, vec4(x2.x, x2.y, x2.z, 0.0));
  n.w = m.z * m.z * dot(g, vec4(x3.x, x3.y, x3.z, 0.0));
  return 70.0 * (n.x + n.y + n.z + n.w);\<close>
\<close>

definition snoise1 :: "vec3 \<Rightarrow> real" where
  "snoise1 v =
     (let Cx = 1 / 6;
          Cy = 1 / 3;
          i = floor3 (add3s v (dot3 v (vec3s Cy)));
          x0 = add3s (sub3 v i) (dot3 i (vec3s Cx));
          i1 = (if vx x0 > vy x0
                then (if vx x0 > vz x0 then Vec3 1 0 0 else Vec3 0 0 1)
                else (if vy x0 > vz x0 then Vec3 0 1 0 else Vec3 0 0 1));
          i2 = sub3 (Vec3 1 1 1) i1;
          x1 = add3 (sub3 x0 i1) (smul3 1 (vec3s Cx));
          x2 = add3 (sub3 x0 i2) (smul3 2 (vec3s Cx));
          x3 = add3 (sub3s x0 1) (smul3 3 (vec3s Cx));
          i' = mod289_vec3 i;
          i_x = permute (permute (vz i') + vy i');
          i_xy = permute (i_x + vx i');
          i_xz = permute (i_x + vz i');
          i_yz = permute (permute (vx i') + vy i');
          i_xyz = permute (i_yz + vz i');
          i_zy = permute (permute (vx i') + vz i');
          i_zyx = permute (i_zy + vy i');
          ii = Vec4 i_xy i_xz i_yz i_xyz;
          j = Vec4 i_zyx i_zy i_x (vy i');
          g0 = Vec4 (permute (wx ii + wx j)) (permute (wy ii + wy j))
                    (permute (wz ii + wz j)) (permute (ww ii + ww j));
          g1 = Vec4 (permute (wx g0 + wx j)) (permute (wy g0 + wy j))
                    (permute (wz g0 + wz j)) (permute (ww g0 + ww j));
          g2 = Vec4 (permute (wx g1 + wx j)) (permute (wy g1 + wy j))
                    (permute (wz g1 + wz j)) (permute (ww g1 + ww j));
          g3 = Vec4 (permute (wx g2 + wx j)) (permute (wy g2 + wy j))
                    (permute (wz g2 + wz j)) (permute (ww g2 + ww j));
          g = Vec4 (wx g0) (wx g1) (wx g2) (wx g3);
          m = max3s (ssub3 0.6 (Vec3 (dot3 x0 x0) (dot3 x1 x1) (dot3 x2 x2))) 0;
          nx = vx m * vx m * dot4 g (Vec4 (vx x0) (vy x0) (vz x0) 0);
          m' = max3s (ssub3 0.6 (Vec3 (dot3 x1 x1) (dot3 x2 x2) (dot3 x3 x3))) 0;
          ny = vx m' * vx m' * dot4 g (Vec4 (vx x1) (vy x1) (vz x1) 0);
          nz = vy m' * vy m' * dot4 g (Vec4 (vx x2) (vy x2) (vz x2) 0);
          nw = vz m' * vz m' * dot4 g (Vec4 (vx x3) (vy x3) (vz x3) 0)
      in 70 * (nx + ny + nz + nw))"

subsection \<open>The primitive of the later variants\<close>

text \<open>
  \<open>snoise\<close> as the planet and moon fragment shaders of the two later variants of the
  program write it (the same text in all four shaders); here \<open>snoise2\<close>. Its locals \<open>n_\<close>, \<open>ns\<close>, \<open>j\<close>,
  \<open>x_\<close>, \<open>y_\<close>, \<open>z_\<close> and the second value of \<open>i\<close> (\<open>mod289_vec3(i)\<close>) are never
  read, and are left out.
  \<^verbatim>\<open>const vec2 C = vec2(1.0/6.0, 1.0/3.0);
  vec3 i  = floor(v + dot(v, vec3(C.y)));
  vec3 x0 = v - i + dot(i, vec3(C.x));
  vec3 g;
  g = step(x0.yzx, x0.xyz);
  vec3 l = 1.0 - g;
  vec3 i1 = min(g.xyz, l.zxy);
  vec3 i2 = max(g.xyz, l.zxy);
  vec3 x1 = x0 - i1 + vec3(C.x);
  vec3 x2 = x0 - i2 + 2.0 * vec3(C.x);
  vec3 x3 = x0 - 1.0 + 3.0 * vec3(C.x);
  vec4 t = max(0.6 - vec4(dot(x0,x0), dot(x1,x1), dot(x2,x2), dot(x3,x3)), 0.0);
  t = t * t;
  return 42.0 * dot(t, vec4(dot(x0,x0), dot(x1,x1), dot(x2,x2), dot(x3,x3)));\<close>
\<close>

definition snoise2 :: "vec3 \<Rightarrow> real" where
  "snoise2 v =
     (let Cx = 1 / 6;
          Cy = 1 / 3;
          i = floor3 (add3s v (dot3 v (vec3s Cy)));
          x0 = add3s (sub3 v i) (dot3 i (vec3s Cx));
          g = step3 (yzx x0) x0;
          l = ssub3 1 g;
          i1 = min3 g (zxy l);
          i2 = max3 g (zxy l);
          x1 = add3 (sub3 x0 i1) (vec3s Cx);
          x2 = add3 (sub3 x0 i2) (smul3 2 (vec3s Cx));
          x3 = add3 (sub3s x0 1) (smul3 3 (vec3s Cx));
          t = max4s (ssub4 0.6 (Vec4 (dot3 x0 x0) (dot3 x1 x1) (dot3 x2 x2) (dot3 x3 x3))) 0;
          t2 = mul4 t t
      in 42 * dot4 t2 (Vec4 (dot3 x0 x0) (dot3 x1 x1) (dot3 x2 x2) (dot3 x3 x3)))"

subsection \<open>The shader-side sampling functions\<close>

text \<open>
  The fragment shaders of the first variant write \<open>perlinNoise(vec3 p, float seed)\<close>
  component by component:
  \<^verbatim>\<open>float scaledX = p.x * 0.1 + seed;  (and scaledY, scaledZ)
  for (int i = 0; i < 4; i++) {
      total += snoise(vec3(scaledX * frequency, scaledY * frequency, scaledZ * frequency)) * amplitude;
      maxVal += amplitude;
      amplitude *= 0.5;
      frequency *= 2.0;
  }
  return (total / maxVal + 1.0) / 2.0;\<close>
  The primitive is the argument \<open>sn\<close>, so that the loop can be compared with the
  host-side one over any primitive.
\<close>

function perlinNoise_shader1_loop :: "(vec3 \<Rightarrow> real) \<Rightarrow> real \<Rightarrow> real \<Rightarrow> real \<Rightarrow> nat \<Rightarrow> octaves \<Rightarrow> octaves" where
  "perlinNoise_shader1_loop sn scaledX scaledY scaledZ i st =
     (if i < 4 then
        perlinNoise_shader1_loop sn scaledX scaledY scaledZ (i + 1)
          (st\<lparr>total_acc := total_acc st
                 + sn (Vec3 (scaledX * frequency st) (scaledY * frequency st) (scaledZ * frequency st))
                   * amplitude st,
              maxVal := maxVal st + amplitude st,
              amplitude := amplitude st * 0.5,
              frequency := frequency st * 2\<rparr>)
      else st)"
  by pat_completeness auto
termination
  by (relation "measure (\<lambda>(sn, scaledX, scaledY, scaledZ, i, st). 4 - i)") auto

declare perlinNoise_shader1_loop.simps [simp del]

definition perlinNoise_shader1 :: "(vec3 \<Rightarrow> real) \<Rightarrow> vec3 \<Rightarrow> real \<Rightarrow> real" where
  "perlinNoise_shader1 sn p seed =
     (let scaledX = vx p * 0.1 + seed;
          scaledY = vy p * 0.1 + seed;
          scaledZ = vz p * 0.1 + seed;
          st = perlinNoise_shader1_loop sn scaledX scaledY scaledZ 0
                 \<lparr>total_acc = 0, frequency = 1, amplitude = 1, maxVal = 0\<rparr>
      in (total_acc st / maxVal st + 1) / 2)"

text \<open>
  The fragment shaders of the later variants compute on the vector:
  \<^verbatim>\<open>vec3 scaledP = p * 0.1 + vec3(seed);
  for (int i = 0; i < 4; i++) {
      total += snoise(scaledP * frequency) * amplitude;
      maxVal += amplitude;
      amplitude *= 0.5;
      frequency *= 2.0;
  }
  return (total / maxVal + 1.0) / 2.0;\<close>
\<close>

function perlinNoise_shader2_loop :: "(vec3 \<Rightarrow> real) \<Rightarrow> vec3 \<Rightarrow> nat \<Rightarrow> octaves \<Rightarrow> octaves" where
  "perlinNoise_shader2_loop sn scaledP i st =
     (if i < 4 then
        perlinNoise_shader2_loop sn scaledP (i + 1)
          (st\<lparr>total_acc := total_acc st + sn (mul3s scaledP (frequency st)) * amplitude st,
              maxVal := maxVal st + amplitude st,
              amplitude := amplitude st * 0.5,
              frequency := frequency st * 2\<rparr>)
      else st)"
  by pat_completeness auto
termination
  by (relation "measure (\<lambda>(sn, scaledP, i, st). 4 - i)") auto

declare perlinNoise_shader2_loop.simps [simp del]

definition perlinNoise_shader2 :: "(vec3 \<Rightarrow> real) \<Rightarrow> vec3 \<Rightarrow> real \<Rightarrow> real" where
  "perlinNoise_shader2 sn p seed =
     (let scaledP = add3 (mul3s p 0.1) (vec3s seed);
          st = perlinNoise_shader2_loop sn scaledP 0
                 \<lparr>total_acc = 0, frequency = 1, amplitude = 1, maxVal = 0\<rparr>
      in (total_acc st / maxVal st + 1) / 2)"

text \<open>The sampling functions as the shaders run them, each over its own primitive.\<close>

definition perlinNoise_frag1 :: "vec3 \<Rightarrow> real \<Rightarrow> real" where
  "perlinNoise_frag1 p seed = perlinNoise_shader1 snoise1 p seed"

definition perlinNoise_frag2 :: "vec3 \<Rightarrow> real \<Rightarrow> real" where
  "perlinNoise_frag2 p seed = perlinNoise_shader2 snoise2 p seed"


section \<open>The sampling functions in rounded arithmetic\<close>

text \<open>
  The definitions above compute in exact arithmetic. The program does not: the host
  computes in IEEE 754 doubles and the shaders in 32-bit floats, and every operation
  rounds its result. Where a property depends on the rounding, the functions are taken
  in a second form, with the rounding of a result as the parameter \<open>rnd\<close>, applied to
  the result of every operation of the source and to the literal \<open>0.1\<close> (the literals
  \<open>0\<close>, \<open>0.5\<close>, \<open>1\<close> and \<open>2\<close> are numbers of every binary format). The arguments and the
  values of the primitive are numbers of the format already.
\<close>

function perlinNoise_fl_loop ::
    "(real \<Rightarrow> real) \<Rightarrow> noise \<Rightarrow> real \<Rightarrow> real \<Rightarrow> real \<Rightarrow> nat \<Rightarrow> octaves \<Rightarrow> octaves" where
  "perlinNoise_fl_loop rnd noise3D scaledX scaledY scaledZ i st =
     (if i < 4 then
        perlinNoise_fl_loop rnd noise3D scaledX scaledY scaledZ (i + 1)
          (st\<lparr>total_acc := rnd (total_acc st
                 + rnd (noise3D (rnd (scaledX * frequency st)) (rnd (scaledY * frequency st))
                          (rnd (scaledZ * frequency st))
                        * amplitude st)),
              maxVal := rnd (maxVal st + amplitude st),
              amplitude := rnd (amplitude st * 0.5),
              frequency := rnd (frequency st * 2)\<rparr>)
      else st)"
  by pat_completeness auto
termination
  by (relation "measure (\<lambda>(rnd, noise3D, scaledX, scaledY, scaledZ, i, st). 4 - i)") auto

declare perlinNoise_fl_loop.simps [simp del]

definition perlinNoise_fl :: "(real \<Rightarrow> real) \<Rightarrow> noise \<Rightarrow> real \<Rightarrow> real \<Rightarrow> real \<Rightarrow> real \<Rightarrow> real" where
  "perlinNoise_fl rnd noise3D x y z seed =
     (let scaledX = rnd (rnd (x * rnd 0.1) + seed);
          scaledY = rnd (rnd (y * rnd 0.1) + seed);
          scaledZ = rnd (rnd (z * rnd 0.1) + seed);
          st = perlinNoise_fl_loop rnd noise3D scaledX scaledY scaledZ 0
                 \<lparr>total_acc = 0, frequency = 1, amplitude = 1, maxVal = 0\<rparr>
      in rnd (rnd (rnd (total_acc st / maxVal st) + 1) / 2))"

text \<open>The shader functions of the first and of the later variants, in the same way.\<close>

function perlinNoise_shader1_fl_loop ::
    "(real \<Rightarrow> real) \<Rightarrow> (vec3 \<Rightarrow> real) \<Rightarrow> real \<Rightarrow> real \<Rightarrow> real \<Rightarrow> nat \<Rightarrow> octaves \<Rightarrow> octaves" where
  "perlinNoise_shader1_fl_loop rnd sn scaledX scaledY scaledZ i st =
     (if i < 4 then
        perlinNoise_shader1_fl_loop rnd sn scaledX scaledY scaledZ (i + 1)
          (st\<lparr>total_acc := rnd (total_acc st
                 + rnd (sn (Vec3 (rnd (scaledX * frequency st)) (rnd (scaledY * frequency st))
                               (rnd (scaledZ * frequency st)))
                        * amplitude st)),
              maxVal := rnd (maxVal st + amplitude st),
              amplitude := rnd (amplitude st * 0.5),
              frequency := rnd (frequency st * 2)\<rparr>)
      else st)"
  by pat_completeness auto
termination
  by (relation "measure (\<lambda>(rnd, sn, scaledX, scaledY, scaledZ, i, st). 4 - i)") auto

declare perlinNoise_shader1_fl_loop.simps [simp del]

definition perlinNoise_shader1_fl :: "(real \<Rightarrow> real) \<Rightarrow> (vec3 \<Rightarrow> real) \<Rightarrow> vec3 \<Rightarrow> real \<Rightarrow> real" where
  "perlinNoise_shader1_fl rnd sn p seed =
     (let scaledX = rnd (rnd (vx p * rnd 0.1) + seed);
          scaledY = rnd (rnd (vy p * rnd 0.1) + seed);
          scaledZ = rnd (rnd (vz p * rnd 0.1) + seed);
          st = perlinNoise_shader1_fl_loop rnd sn scaledX scaledY scaledZ 0
                 \<lparr>total_acc = 0, frequency = 1, amplitude = 1, maxVal = 0\<rparr>
      in rnd (rnd (rnd (total_acc st / maxVal st) + 1) / 2))"

text \<open>An operation on vectors rounds every component of its result.\<close>

fun rnd3 :: "(real \<Rightarrow> real) \<Rightarrow> vec3 \<Rightarrow> vec3" where
  "rnd3 rnd (Vec3 a b c) = Vec3 (rnd a) (rnd b) (rnd c)"

function perlinNoise_shader2_fl_loop ::
    "(real \<Rightarrow> real) \<Rightarrow> (vec3 \<Rightarrow> real) \<Rightarrow> vec3 \<Rightarrow> nat \<Rightarrow> octaves \<Rightarrow> octaves" where
  "perlinNoise_shader2_fl_loop rnd sn scaledP i st =
     (if i < 4 then
        perlinNoise_shader2_fl_loop rnd sn scaledP (i + 1)
          (st\<lparr>total_acc := rnd (total_acc st
                 + rnd (sn (rnd3 rnd (mul3s scaledP (frequency st))) * amplitude st)),
              maxVal := rnd (maxVal st + amplitude st),
              amplitude := rnd (amplitude st * 0.5),
              frequency := rnd (frequency st * 2)\<rparr>)
      else st)"
  by pat_completeness auto
termination
  by (relation "measure (\<lambda>(rnd, sn, scaledP, i, st). 4 - i)") auto

declare perlinNoise_shader2_fl_loop.simps [simp del]

definition perlinNoise_shader2_fl :: "(real \<Rightarrow> real) \<Rightarrow> (vec3 \<Rightarrow> real) \<Rightarrow> vec3 \<Rightarrow> real \<Rightarrow> real" where
  "perlinNoise_shader2_fl rnd sn p seed =
     (let scaledP = rnd3 rnd (add3 (rnd3 rnd (mul3s p (rnd 0.1))) (vec3s seed));
          st = perlinNoise_shader2_fl_loop rnd sn scaledP 0
                 \<lparr>total_acc = 0, frequency = 1, amplitude = 1, maxVal = 0\<rparr>
      in rnd (rnd (rnd (total_acc st / maxVal st) + 1) / 2))"

subsection \<open>The rounding of doubles\<close>

text \<open>
  A double has 53 significant bits. The rounding of a result \<open>x\<close> finds the power of
  two \<open>s\<close> with \<open>s \<le> |x| < 2 s\<close> (not below \<open>2^-1022\<close>, where the subnormal numbers
  begin), and takes the multiple of \<open>s / 2^52\<close> nearest to \<open>x\<close>, the even one of two at
  the same distance. \<open>scale_up\<close> finds \<open>s\<close> for \<open>1 \<le> |x|\<close> by halving, \<open>scale_down\<close>
  for \<open>|x| < 1\<close> by doubling, counting the exponent down to \<open>-1022\<close>. Results at or
  above \<open>2^1024\<close>, which the machine turns into an infinity, are outside this model.
\<close>

function scale_up :: "real \<Rightarrow> real \<Rightarrow> real" where
  "scale_up a s = (if 2 \<le> a then scale_up (a / 2) (s * 2) else s)"
  by pat_completeness auto
termination
proof (relation "measure (\<lambda>(a, s). nat \<lfloor>a\<rfloor>)")
  show "wf (measure (\<lambda>(a, s). nat \<lfloor>a\<rfloor>))"
    by simp
next
  fix a s :: real
  assume a: "2 \<le> a"
  have "real_of_int \<lfloor>a / 2\<rfloor> \<le> a / 2"
    by (rule of_int_floor_le)
  moreover have "a - 1 < real_of_int \<lfloor>a\<rfloor>"
    by linarith
  ultimately have "real_of_int \<lfloor>a / 2\<rfloor> < real_of_int \<lfloor>a\<rfloor>"
    using a by linarith
  then have "\<lfloor>a / 2\<rfloor> < \<lfloor>a\<rfloor>"
    by simp
  moreover have "0 < \<lfloor>a\<rfloor>"
    using a by linarith
  ultimately show "((a / 2, s * 2), (a, s)) \<in> measure (\<lambda>(a, s). nat \<lfloor>a\<rfloor>)"
    by simp
qed

declare scale_up.simps [simp del]

function scale_down :: "int \<Rightarrow> real \<Rightarrow> real \<Rightarrow> real" where
  "scale_down e a s =
     (if a < 1 \<and> - 1022 < e then scale_down (e - 1) (a * 2) (s / 2) else s)"
  by pat_completeness auto
termination
  by (relation "measure (\<lambda>(e, a, s). nat (e + 1022))") auto

declare scale_down.simps [simp del]

definition round_half_even :: "real \<Rightarrow> int" where
  "round_half_even q =
     (let f = \<lfloor>q\<rfloor>;
          r = q - of_int f
      in if r < 1 / 2 then f
         else if 1 / 2 < r then f + 1
         else if even f then f else f + 1)"

definition double :: "real \<Rightarrow> real" where
  "double x =
     (if x = 0 then 0
      else
        let a = \<bar>x\<bar>;
            s = (if 1 \<le> a then scale_up a 1 else scale_down 0 a 1);
            ulp = s / 2 ^ 52
        in of_int (round_half_even (x / ulp)) * ulp)"

text \<open>
  A primitive with values in the native range that steps at three tenths. On doubles
  it is the JavaScript function \<open>(a, b, c) => a <= 0.3 ? -1 : 0.5\<close>: the double \<open>0.3\<close>
  is the largest double that is at most three tenths.
\<close>

definition low_step :: noise where
  "low_step a b c = (if a \<le> 3 / 10 then - 1 else 1 / 2)"


section \<open>The loop, unrolled\<close>

lemma perlinNoise_loop_done:
  "perlinNoise_loop noise3D sx sy sz 4 st = st"
  by (simp add: perlinNoise_loop.simps [of _ _ _ _ 4])

lemma perlinNoise_loop_step:
  "i < 4 \<Longrightarrow> perlinNoise_loop noise3D sx sy sz i st =
     perlinNoise_loop noise3D sx sy sz (Suc i)
       (st\<lparr>total_acc := total_acc st
              + noise3D (sx * frequency st) (sy * frequency st) (sz * frequency st) * amplitude st,
           maxVal := maxVal st + amplitude st,
           amplitude := amplitude st * 0.5,
           frequency := frequency st * 2,
           log := (log st)\<lparr>evals := evals (log st)
              @ [(sx * frequency st, sy * frequency st, sz * frequency st)]\<rparr>\<rparr>)"
  by (subst perlinNoise_loop.simps) simp

lemma perlinNoise_loop_unrolled:
  "perlinNoise_loop noise3D sx sy sz 0
     \<lparr>total_acc = 0, frequency = 1, amplitude = 1, maxVal = 0, log = tr\<rparr> =
   \<lparr>total_acc = noise3D sx sy sz
        + noise3D (sx * 2) (sy * 2) (sz * 2) * (1 / 2)
        + noise3D (sx * 4) (sy * 4) (sz * 4) * (1 / 4)
        + noise3D (sx * 8) (sy * 8) (sz * 8) * (1 / 8),
    frequency = 16, amplitude = 1 / 16, maxVal = 15 / 8,
    log = tr\<lparr>evals := evals tr
      @ [(sx, sy, sz), (sx * 2, sy * 2, sz * 2), (sx * 4, sy * 4, sz * 4),
         (sx * 8, sy * 8, sz * 8)]\<rparr>\<rparr>"
proof -
  have four: "Suc (Suc (Suc (Suc 0))) = 4" by simp
  show ?thesis
    by (simp add: perlinNoise_loop_step perlinNoise_loop_done four del: One_nat_def)
qed

lemma perlinNoise_tr_eq:
  "perlinNoise_tr noise3D x y z seed tr =
     (perlinNoise noise3D x y z seed,
      tr\<lparr>samples := samples tr @ [(x, y, z, seed)],
         evals := evals tr
           @ [(x * 0.1 + seed, y * 0.1 + seed, z * 0.1 + seed),
              ((x * 0.1 + seed) * 2, (y * 0.1 + seed) * 2, (z * 0.1 + seed) * 2),
              ((x * 0.1 + seed) * 4, (y * 0.1 + seed) * 4, (z * 0.1 + seed) * 4),
              ((x * 0.1 + seed) * 8, (y * 0.1 + seed) * 8, (z * 0.1 + seed) * 8)]\<rparr>)"
  by (simp add: perlinNoise_def perlinNoise_tr_def Let_def perlinNoise_loop_unrolled)

lemma perlinNoise_closed:
  "perlinNoise noise3D x y z seed =
     ((noise3D (x * 0.1 + seed) (y * 0.1 + seed) (z * 0.1 + seed)
       + noise3D ((x * 0.1 + seed) * 2) ((y * 0.1 + seed) * 2) ((z * 0.1 + seed) * 2) * (1 / 2)
       + noise3D ((x * 0.1 + seed) * 4) ((y * 0.1 + seed) * 4) ((z * 0.1 + seed) * 4) * (1 / 4)
       + noise3D ((x * 0.1 + seed) * 8) ((y * 0.1 + seed) * 8) ((z * 0.1 + seed) * 8) * (1 / 8))
      / (15 / 8) + 1) / 2"
  by (simp add: perlinNoise_def perlinNoise_tr_def Let_def perlinNoise_loop_unrolled)

lemma perlinNoise_shader1_loop_done: "perlinNoise_shader1_loop sn sx sy sz 4 st = st"
  by (simp add: perlinNoise_shader1_loop.simps [of _ _ _ _ 4])

lemma perlinNoise_shader1_loop_step:
  "i < 4 \<Longrightarrow> perlinNoise_shader1_loop sn sx sy sz i st =
     perlinNoise_shader1_loop sn sx sy sz (Suc i)
          (st\<lparr>total_acc := total_acc st
                 + sn (Vec3 (sx * frequency st) (sy * frequency st) (sz * frequency st))
                   * amplitude st,
              maxVal := maxVal st + amplitude st,
              amplitude := amplitude st * 0.5,
              frequency := frequency st * 2\<rparr>)"
  by (subst perlinNoise_shader1_loop.simps) simp

lemma perlinNoise_shader1_loop_unrolled:
  "perlinNoise_shader1_loop sn sx sy sz 0 \<lparr>total_acc = 0, frequency = 1, amplitude = 1, maxVal = 0\<rparr> =
   \<lparr>total_acc = sn (Vec3 sx sy sz) + sn (Vec3 (sx * 2) (sy * 2) (sz * 2)) * (1 / 2)
       + sn (Vec3 (sx * 4) (sy * 4) (sz * 4)) * (1 / 4)
       + sn (Vec3 (sx * 8) (sy * 8) (sz * 8)) * (1 / 8),
    frequency = 16, amplitude = 1 / 16, maxVal = 15 / 8\<rparr>"
proof -
  have four: "Suc (Suc (Suc (Suc 0))) = 4" by simp
  show ?thesis
    by (simp add: perlinNoise_shader1_loop_step perlinNoise_shader1_loop_done four del: One_nat_def)
qed

lemma perlinNoise_shader2_loop_done: "perlinNoise_shader2_loop sn sp 4 st = st"
  by (simp add: perlinNoise_shader2_loop.simps [of _ _ 4])

lemma perlinNoise_shader2_loop_step:
  "i < 4 \<Longrightarrow> perlinNoise_shader2_loop sn sp i st =
     perlinNoise_shader2_loop sn sp (Suc i)
          (st\<lparr>total_acc := total_acc st + sn (mul3s sp (frequency st)) * amplitude st,
              maxVal := maxVal st + amplitude st,
              amplitude := amplitude st * 0.5,
              frequency := frequency st * 2\<rparr>)"
  by (subst perlinNoise_shader2_loop.simps) simp

lemma perlinNoise_shader2_loop_unrolled:
  "perlinNoise_shader2_loop sn sp 0 \<lparr>total_acc = 0, frequency = 1, amplitude = 1, maxVal = 0\<rparr> =
   \<lparr>total_acc = sn (mul3s sp 1) + sn (mul3s sp 2) * (1 / 2) + sn (mul3s sp 4) * (1 / 4)
       + sn (mul3s sp 8) * (1 / 8),
    frequency = 16, amplitude = 1 / 16, maxVal = 15 / 8\<rparr>"
proof -
  have four: "Suc (Suc (Suc (Suc 0))) = 4" by simp
  show ?thesis
    by (simp add: perlinNoise_shader2_loop_step perlinNoise_shader2_loop_done four del: One_nat_def)
qed

lemma perlinNoise_shader1_closed:
  "perlinNoise_shader1 sn p seed =
     ((sn (Vec3 (vx p * 0.1 + seed) (vy p * 0.1 + seed) (vz p * 0.1 + seed))
       + sn (Vec3 ((vx p * 0.1 + seed) * 2) ((vy p * 0.1 + seed) * 2) ((vz p * 0.1 + seed) * 2)) * (1 / 2)
       + sn (Vec3 ((vx p * 0.1 + seed) * 4) ((vy p * 0.1 + seed) * 4) ((vz p * 0.1 + seed) * 4)) * (1 / 4)
       + sn (Vec3 ((vx p * 0.1 + seed) * 8) ((vy p * 0.1 + seed) * 8) ((vz p * 0.1 + seed) * 8)) * (1 / 8))
      / (15 / 8) + 1) / 2"
  by (simp add: perlinNoise_shader1_def Let_def perlinNoise_shader1_loop_unrolled)

lemma perlinNoise_shader2_closed:
  "perlinNoise_shader2 sn p seed =
     ((sn (Vec3 (vx p * 0.1 + seed) (vy p * 0.1 + seed) (vz p * 0.1 + seed))
       + sn (Vec3 ((vx p * 0.1 + seed) * 2) ((vy p * 0.1 + seed) * 2) ((vz p * 0.1 + seed) * 2)) * (1 / 2)
       + sn (Vec3 ((vx p * 0.1 + seed) * 4) ((vy p * 0.1 + seed) * 4) ((vz p * 0.1 + seed) * 4)) * (1 / 4)
       + sn (Vec3 ((vx p * 0.1 + seed) * 8) ((vy p * 0.1 + seed) * 8) ((vz p * 0.1 + seed) * 8)) * (1 / 8))
      / (15 / 8) + 1) / 2"
  by (cases p) (simp add: perlinNoise_shader2_def Let_def perlinNoise_shader2_loop_unrolled vec3s_def)

section \<open>The generator, unfolded\<close>

lemma generatePlanetProperties_tr_samples:
  "samples (snd (generatePlanetProperties_tr noise3D seed t0)) =
     samples t0 @
     [(seed, 10, 20, seed), (seed, 30, 40, seed), (seed, 50, 60, seed),
      (seed, 70, 80, seed), (seed, 90, 100, seed), (seed, 110, 120, seed),
      (seed, 130, 140, seed), (seed, 150, 160, seed), (seed, 170, 180, seed),
      (seed, 190, 200, seed), (seed, 210, 220, seed), (seed, 230, 240, seed),
      (seed, 250, 260, seed)]"
  by (simp add: generatePlanetProperties_tr_def perlinNoise_tr_eq Let_def)

lemma generatePlanetProperties_tr_evals:
  "length (evals (snd (generatePlanetProperties_tr noise3D seed t0))) = length (evals t0) + 52"
  by (simp add: generatePlanetProperties_tr_def perlinNoise_tr_eq Let_def)

lemma generatePlanetProperties_eq:
  "generatePlanetProperties noise3D seed =
     [(''baseColor'', Color3 (perlinNoise noise3D seed 10 20 seed)
                              (perlinNoise noise3D seed 30 40 seed)
                              (perlinNoise noise3D seed 50 60 seed)),
      (''reflectance'', Num (perlinNoise noise3D seed 70 80 seed * 0.8)),
      (''emission'', Num (perlinNoise noise3D seed 90 100 seed * 0.2)),
      (''atmosphere'', Num (perlinNoise noise3D seed 110 120 seed * 0.5)),
      (''atmosphereColor'', Color3 (perlinNoise noise3D seed 130 140 seed)
                                    (perlinNoise noise3D seed 150 160 seed)
                                    (perlinNoise noise3D seed 170 180 seed)),
      (''seaColor'', Color3 (perlinNoise noise3D seed 190 200 seed)
                             (perlinNoise noise3D seed 210 220 seed)
                             (perlinNoise noise3D seed 230 240 seed)),
      (''landPct'', Num (perlinNoise noise3D seed 250 260 seed * 0.8)),
      (''seed'', Num seed)]"
  by (simp add: generatePlanetProperties_def generatePlanetProperties_tr_def perlinNoise_tr_eq
      Let_def)

lemma perlinNoise_unit:
  assumes "\<forall>a b c. - 1 \<le> noise3D a b c \<and> noise3D a b c \<le> 1"
  shows "0 \<le> perlinNoise noise3D x y z seed \<and> perlinNoise noise3D x y z seed \<le> 1"
proof -
  let ?sx = "x * 0.1 + seed" and ?sy = "y * 0.1 + seed" and ?sz = "z * 0.1 + seed"
  define n0 where "n0 = noise3D ?sx ?sy ?sz"
  define n1 where "n1 = noise3D (?sx * 2) (?sy * 2) (?sz * 2)"
  define n2 where "n2 = noise3D (?sx * 4) (?sy * 4) (?sz * 4)"
  define n3 where "n3 = noise3D (?sx * 8) (?sy * 8) (?sz * 8)"
  have b: "- 1 \<le> n0" "n0 \<le> 1" "- 1 \<le> n1" "n1 \<le> 1" "- 1 \<le> n2" "n2 \<le> 1" "- 1 \<le> n3" "n3 \<le> 1"
    using assms by (simp_all add: n0_def n1_def n2_def n3_def)
  have eq: "perlinNoise noise3D x y z seed
      = ((n0 + n1 * (1 / 2) + n2 * (1 / 4) + n3 * (1 / 8)) / (15 / 8) + 1) / 2"
    by (simp only: perlinNoise_closed n0_def n1_def n2_def n3_def)
  show ?thesis
    unfolding eq using b by (simp add: field_simps)
qed

lemma two_level_range: "\<forall>a b c. - 1 \<le> two_level a b c \<and> two_level a b c \<le> 1"
  by (simp add: two_level_def)


section \<open>The loops in rounded arithmetic, unrolled\<close>

lemma perlinNoise_fl_loop_done: "perlinNoise_fl_loop rnd noise3D sx sy sz 4 st = st"
  by (simp add: perlinNoise_fl_loop.simps [of _ _ _ _ _ 4])

lemma perlinNoise_fl_loop_step:
  "i < 4 \<Longrightarrow> perlinNoise_fl_loop rnd noise3D sx sy sz i st =
     perlinNoise_fl_loop rnd noise3D sx sy sz (Suc i)
       (st\<lparr>total_acc := rnd (total_acc st
              + rnd (noise3D (rnd (sx * frequency st)) (rnd (sy * frequency st))
                       (rnd (sz * frequency st))
                     * amplitude st)),
           maxVal := rnd (maxVal st + amplitude st),
           amplitude := rnd (amplitude st * 0.5),
           frequency := rnd (frequency st * 2)\<rparr>)"
  by (subst perlinNoise_fl_loop.simps) simp

lemma perlinNoise_shader1_fl_loop_done:
  "perlinNoise_shader1_fl_loop rnd sn sx sy sz 4 st = st"
  by (simp add: perlinNoise_shader1_fl_loop.simps [of _ _ _ _ _ 4])

lemma perlinNoise_shader1_fl_loop_step:
  "i < 4 \<Longrightarrow> perlinNoise_shader1_fl_loop rnd sn sx sy sz i st =
     perlinNoise_shader1_fl_loop rnd sn sx sy sz (Suc i)
       (st\<lparr>total_acc := rnd (total_acc st
              + rnd (sn (Vec3 (rnd (sx * frequency st)) (rnd (sy * frequency st))
                            (rnd (sz * frequency st)))
                     * amplitude st)),
           maxVal := rnd (maxVal st + amplitude st),
           amplitude := rnd (amplitude st * 0.5),
           frequency := rnd (frequency st * 2)\<rparr>)"
  by (subst perlinNoise_shader1_fl_loop.simps) simp

lemma perlinNoise_shader2_fl_loop_done:
  "perlinNoise_shader2_fl_loop rnd sn sp 4 st = st"
  by (simp add: perlinNoise_shader2_fl_loop.simps [of _ _ _ 4])

lemma perlinNoise_shader2_fl_loop_step:
  "i < 4 \<Longrightarrow> perlinNoise_shader2_fl_loop rnd sn sp i st =
     perlinNoise_shader2_fl_loop rnd sn sp (Suc i)
       (st\<lparr>total_acc := rnd (total_acc st
              + rnd (sn (rnd3 rnd (mul3s sp (frequency st))) * amplitude st)),
           maxVal := rnd (maxVal st + amplitude st),
           amplitude := rnd (amplitude st * 0.5),
           frequency := rnd (frequency st * 2)\<rparr>)"
  by (subst perlinNoise_shader2_fl_loop.simps) simp

text \<open>
  The two loops on scalars run in step: from equal states they reach equal states,
  whatever the rounding and the number of iterations left.
\<close>

lemma perlinNoise_shader1_fl_loop_host:
  "perlinNoise_shader1_fl_loop rnd sn sx sy sz i st
     = perlinNoise_fl_loop rnd (\<lambda>x y z. sn (Vec3 x y z)) sx sy sz i st"
proof (induction rnd sn sx sy sz i st rule: perlinNoise_shader1_fl_loop.induct)
  case (1 rnd sn sx sy sz i st)
  show ?case
  proof (cases "i < 4")
    case True
    with "1" show ?thesis
      by (subst perlinNoise_shader1_fl_loop.simps, subst perlinNoise_fl_loop.simps) simp
  next
    case False
    then show ?thesis
      by (subst perlinNoise_shader1_fl_loop.simps, subst perlinNoise_fl_loop.simps) simp
  qed
qed

text \<open>So does the loop on the vector, with its components as the scalars.\<close>

lemma perlinNoise_shader2_fl_loop_host:
  "perlinNoise_shader2_fl_loop rnd sn (Vec3 sx sy sz) i st
     = perlinNoise_fl_loop rnd (\<lambda>x y z. sn (Vec3 x y z)) sx sy sz i st"
proof (induction rnd sn "Vec3 sx sy sz" i st rule: perlinNoise_shader2_fl_loop.induct)
  case (1 rnd sn i st)
  show ?case
  proof (cases "i < 4")
    case True
    with "1" show ?thesis
      by (subst perlinNoise_shader2_fl_loop.simps, subst perlinNoise_fl_loop.simps) simp
  next
    case False
    then show ?thesis
      by (subst perlinNoise_shader2_fl_loop.simps, subst perlinNoise_fl_loop.simps) simp
  qed
qed

text \<open>With no rounding, the second form of the host function is the first.\<close>

lemma perlinNoise_fl_loop_unrolled:
  "perlinNoise_fl_loop (\<lambda>r. r) noise3D sx sy sz 0
     \<lparr>total_acc = 0, frequency = 1, amplitude = 1, maxVal = 0\<rparr> =
   \<lparr>total_acc = noise3D sx sy sz
        + noise3D (sx * 2) (sy * 2) (sz * 2) * (1 / 2)
        + noise3D (sx * 4) (sy * 4) (sz * 4) * (1 / 4)
        + noise3D (sx * 8) (sy * 8) (sz * 8) * (1 / 8),
    frequency = 16, amplitude = 1 / 16, maxVal = 15 / 8\<rparr>"
proof -
  have four: "Suc (Suc (Suc (Suc 0))) = 4" by simp
  show ?thesis
    by (simp add: perlinNoise_fl_loop_step perlinNoise_fl_loop_done four del: One_nat_def)
qed

lemma perlinNoise_fl_exact:
  "perlinNoise_fl (\<lambda>r. r) noise3D x y z seed = perlinNoise noise3D x y z seed"
  by (simp add: perlinNoise_fl_def Let_def perlinNoise_fl_loop_unrolled perlinNoise_closed)


section \<open>Evaluating the host function in doubles\<close>

lemma double_unfold:
  "double x =
     (if x = 0 then 0
      else of_int (round_half_even
             (x / ((if 1 \<le> \<bar>x\<bar> then scale_up \<bar>x\<bar> 1 else scale_down 0 \<bar>x\<bar> 1) / 2 ^ 52)))
           * ((if 1 \<le> \<bar>x\<bar> then scale_up \<bar>x\<bar> 1 else scale_down 0 \<bar>x\<bar> 1) / 2 ^ 52))"
  by (simp only: double_def Let_def)

lemmas double_eval = double_unfold scale_up.simps scale_down.simps round_half_even_def Let_def

text \<open>
  A call is evaluated in three stages: the scaled coordinates, the loop from its
  initial state, the normalisation of the final state.
\<close>

lemma perlinNoise_fl_staged:
  assumes "rnd (rnd (x * rnd (1 / 10)) + seed) = sx"
    and "rnd (rnd (y * rnd (1 / 10)) + seed) = sy"
    and "rnd (rnd (z * rnd (1 / 10)) + seed) = sz"
    and "perlinNoise_fl_loop rnd noise3D sx sy sz 0
           \<lparr>total_acc = 0, frequency = 1, amplitude = 1, maxVal = 0\<rparr> = st"
    and "rnd (rnd (rnd (total_acc st / maxVal st) + 1) / 2) = v"
  shows "perlinNoise_fl rnd noise3D x y z seed = v"
  using assms by (simp add: perlinNoise_fl_def)

lemma perlinNoise_fl_low:
  "perlinNoise_fl double low_step (1 / 2) 0 0 (1 / 4) = 3152519739159347 / 9007199254740992"
proof (rule perlinNoise_fl_staged)
  show "double (double (1 / 2 * double (1 / 10)) + 1 / 4)
      = 5404319552844595 / 18014398509481984"
    by (simp add: double_eval)
  show "double (double (0 * double (1 / 10)) + 1 / 4) = 1 / 4"
    by (simp add: double_eval)
  then show "double (double (0 * double (1 / 10)) + 1 / 4) = 1 / 4" .
  have four: "Suc (Suc (Suc (Suc 0))) = 4" by simp
  show "perlinNoise_fl_loop double low_step (5404319552844595 / 18014398509481984) (1 / 4) (1 / 4) 0
          \<lparr>total_acc = 0, frequency = 1, amplitude = 1, maxVal = 0\<rparr>
        = \<lparr>total_acc = - (9 / 16), frequency = 16, amplitude = 1 / 16, maxVal = 15 / 8\<rparr>"
    by (simp add: perlinNoise_fl_loop_step perlinNoise_fl_loop_done four low_step_def
        double_eval del: One_nat_def)
  show "double (double (double (total_acc
          \<lparr>total_acc = - (9 / 16), frequency = 16, amplitude = 1 / 16, maxVal = 15 / 8\<rparr>
        / maxVal \<lparr>total_acc = - (9 / 16), frequency = 16, amplitude = 1 / 16, maxVal = 15 / 8\<rparr>)
        + 1) / 2) = 3152519739159347 / 9007199254740992"
    by (simp add: double_eval)
qed

lemma perlinNoise_fl_high:
  "perlinNoise_fl double low_step 3 (5 / 2) (5 / 2) 0 = 3 / 4"
proof (rule perlinNoise_fl_staged)
  show "double (double (3 * double (1 / 10)) + 0) = 1351079888211149 / 4503599627370496"
    by (simp add: double_eval)
  show "double (double (5 / 2 * double (1 / 10)) + 0) = 1 / 4"
    by (simp add: double_eval)
  then show "double (double (5 / 2 * double (1 / 10)) + 0) = 1 / 4" .
  have four: "Suc (Suc (Suc (Suc 0))) = 4" by simp
  show "perlinNoise_fl_loop double low_step (1351079888211149 / 4503599627370496) (1 / 4) (1 / 4) 0
          \<lparr>total_acc = 0, frequency = 1, amplitude = 1, maxVal = 0\<rparr>
        = \<lparr>total_acc = 15 / 16, frequency = 16, amplitude = 1 / 16, maxVal = 15 / 8\<rparr>"
    by (simp add: perlinNoise_fl_loop_step perlinNoise_fl_loop_done four low_step_def
        double_eval del: One_nat_def)
  show "double (double (double (total_acc
          \<lparr>total_acc = 15 / 16, frequency = 16, amplitude = 1 / 16, maxVal = 15 / 8\<rparr>
        / maxVal \<lparr>total_acc = 15 / 16, frequency = 16, amplitude = 1 / 16, maxVal = 15 / 8\<rparr>)
        + 1) / 2) = 3 / 4"
    by (simp add: double_eval)
qed


section \<open>The claims\<close>

text \<open>
  C1. \<open>perlinNoise\<close> computes exactly four octaves: octave \<open>i\<close> (\<open>i = 0..3\<close>) evaluates the
  primitive at \<open>((x*0.1+seed)*2^i, (y*0.1+seed)*2^i, (z*0.1+seed)*2^i)\<close> and weighs it by
  \<open>0.5^i\<close>; the amplitudes add up to the maximum amplitude, and the result is
  \<open>(total / maxAmplitude + 1) / 2\<close>. The log shows that one call evaluates the primitive
  at these four points, in this order, and nowhere else.
\<close>

theorem perlinNoise_four_octaves:
  "perlinNoise_tr noise3D x y z seed tr =
     (let sx = x * 0.1 + seed;
          sy = y * 0.1 + seed;
          sz = z * 0.1 + seed;
          total = (\<Sum>i<4. noise3D (sx * 2 ^ i) (sy * 2 ^ i) (sz * 2 ^ i) * 0.5 ^ i);
          maxAmplitude = (\<Sum>i<(4::nat). (0.5::real) ^ i)
      in ((total / maxAmplitude + 1) / 2,
          tr\<lparr>samples := samples tr @ [(x, y, z, seed)],
             evals := evals tr @ map (\<lambda>i. (sx * 2 ^ i, sy * 2 ^ i, sz * 2 ^ i)) [0..<4]\<rparr>))"
proof -
  have idx: "[0..<4] = [0, 1, 2, 3::nat]"
    by (simp add: upt_rec)
  have lt: "{..<4::nat} = {0, 1, 2, 3}"
    by auto
  show ?thesis
    unfolding perlinNoise_tr_eq perlinNoise_closed Let_def idx lt
    by (simp add: power2_eq_square power3_eq_cube)
qed

text \<open>
  C2. If every value of the primitive lies in \<open>[-1, 1]\<close>, the result of \<open>perlinNoise\<close>
  lies in \<open>[0, 1]\<close>, for all coordinates and seeds.
\<close>

theorem perlinNoise_range:
  assumes "\<forall>a b c. - 1 \<le> noise3D a b c \<and> noise3D a b c \<le> 1"
  shows "0 \<le> perlinNoise noise3D x y z seed \<and> perlinNoise noise3D x y z seed \<le> 1"
  using assms by (rule perlinNoise_unit)

theorem perlinNoise_range_witness:
  "(\<forall>a b c. - 1 \<le> two_level a b c \<and> two_level a b c \<le> 1)
   \<and> perlinNoise two_level 1 2 3 4 = 7 / 20
   \<and> 0 \<le> perlinNoise two_level 1 2 3 4 \<and> perlinNoise two_level 1 2 3 4 \<le> 1"
proof -
  have v: "perlinNoise two_level 1 2 3 4 = 7 / 20"
    by (simp add: perlinNoise_closed two_level_def)
  show ?thesis
    using perlinNoise_range [OF two_level_range, of 1 2 3 4] two_level_range v by simp
qed

text \<open>
  C9, as the specification states it: for all \<open>x\<close>, \<open>y\<close>, \<open>z\<close>, \<open>seed\<close> and every shift
  \<open>d\<close>, \<open>perlinNoise(x, y, z, seed) = perlinNoise(x + 10*d, y + 10*d, z + 10*d, seed - d)\<close>.
  In the doubles of the program, over the primitive \<open>low_step\<close>, the call
  \<open>perlinNoise(0.5, 0, 0, 0.25)\<close> returns the double \<open>0.35\<close>, and the call shifted by
  \<open>d = 0.25\<close>, which is \<open>perlinNoise(3, 2.5, 2.5, 0)\<close>, returns \<open>0.75\<close>: the first computes
  \<open>0.5 * 0.1 + 0.25\<close> as the double \<open>0.3\<close>, just below three tenths, the second \<open>3 * 0.1\<close>
  as \<open>0.30000000000000004\<close>. All arguments of both calls are doubles.
\<close>

theorem perlinNoise_seed_shift_counterexample:
  "perlinNoise_fl double low_step (1 / 2) 0 0 (1 / 4) = 3152519739159347 / 9007199254740992
   \<and> perlinNoise_fl double low_step
        (1 / 2 + 10 * (1 / 4)) (0 + 10 * (1 / 4)) (0 + 10 * (1 / 4)) (1 / 4 - 1 / 4) = 3 / 4
   \<and> perlinNoise_fl double low_step (1 / 2) 0 0 (1 / 4)
       \<noteq> perlinNoise_fl double low_step
           (1 / 2 + 10 * (1 / 4)) (0 + 10 * (1 / 4)) (0 + 10 * (1 / 4)) (1 / 4 - 1 / 4)"
proof -
  have shifted: "perlinNoise_fl double low_step
      (1 / 2 + 10 * (1 / 4)) (0 + 10 * (1 / 4)) (0 + 10 * (1 / 4)) (1 / 4 - 1 / 4)
      = perlinNoise_fl double low_step 3 (5 / 2) (5 / 2) 0"
    by simp
  show ?thesis
    unfolding shifted perlinNoise_fl_low perlinNoise_fl_high by simp
qed

text \<open>
  C9, amended: \<open>perlinNoise\<close> depends on \<open>x\<close>, \<open>y\<close>, \<open>z\<close> and \<open>seed\<close> only through the three
  values \<open>x*0.1+seed\<close>, \<open>y*0.1+seed\<close>, \<open>z*0.1+seed\<close> as the program computes them: two
  calls for which these three computed values are the same return the same result,
  whatever the rounding of the arithmetic. (In exact arithmetic the calls
  \<open>(x, y, z, seed)\<close> and \<open>(x + 10*d, y + 10*d, z + 10*d, seed - d)\<close> are such a pair; in the
  doubles of the program they need not be.)
\<close>

theorem perlinNoise_scaled_coordinates:
  assumes "rnd (rnd (x * rnd 0.1) + seed) = rnd (rnd (x' * rnd 0.1) + seed')"
    and "rnd (rnd (y * rnd 0.1) + seed) = rnd (rnd (y' * rnd 0.1) + seed')"
    and "rnd (rnd (z * rnd 0.1) + seed) = rnd (rnd (z' * rnd 0.1) + seed')"
  shows "perlinNoise_fl rnd noise3D x y z seed = perlinNoise_fl rnd noise3D x' y' z' seed'"
  unfolding perlinNoise_fl_def using assms by simp

theorem perlinNoise_scaled_coordinates_witness:
  "double (double (5 * double 0.1) + 9 / 2) = double (double (50 * double 0.1) + 0)
   \<and> perlinNoise_fl double low_step 5 5 5 (9 / 2) = perlinNoise_fl double low_step 50 50 50 0"
proof -
  have h: "double (double (5 * double 0.1) + 9 / 2) = double (double (50 * double 0.1) + 0)"
    by (simp add: double_eval)
  from h perlinNoise_scaled_coordinates [OF h h h, of low_step] show ?thesis
    by simp
qed

text \<open>The equality of the specification, in exact arithmetic.\<close>

lemma perlinNoise_seed_shift_exact:
  "perlinNoise noise3D x y z seed
     = perlinNoise noise3D (x + 10 * d) (y + 10 * d) (z + 10 * d) (seed - d)"
proof -
  have sh: "(u + 10 * e) * 0.1 + (s - e) = u * 0.1 + s" for u e s :: real
    by (simp add: algebra_simps)
  show ?thesis
    unfolding perlinNoise_closed sh by simp
qed


text \<open>
  C4. \<open>generatePlanetProperties(seed)\<close> samples \<open>perlinNoise(seed, off_x, off_y, seed)\<close> at
  the thirteen offset pairs \<open>(10,20)\<close>, \<open>(30,40)\<close>, \<open>(50,60)\<close> (base colour), \<open>(70,80)\<close>
  (reflectance), \<open>(90,100)\<close> (emission), \<open>(110,120)\<close> (atmosphere thickness, the property
  \<open>atmosphere\<close>), \<open>(130,140)\<close>, \<open>(150,160)\<close>, \<open>(170,180)\<close> (atmosphere colour),
  \<open>(190,200)\<close>, \<open>(210,220)\<close>, \<open>(230,240)\<close> (sea colour), \<open>(250,260)\<close> (land fraction, the
  property \<open>landPct\<close>) and at no other point, and stores the colours unscaled, the
  reflectance times 0.8, the emission times 0.2, the atmosphere thickness times 0.5 and
  the land fraction times 0.8.
\<close>

theorem generatePlanetProperties_offsets:
  "generatePlanetProperties noise3D seed =
     [(''baseColor'', Color3 (perlinNoise noise3D seed 10 20 seed)
                              (perlinNoise noise3D seed 30 40 seed)
                              (perlinNoise noise3D seed 50 60 seed)),
      (''reflectance'', Num (perlinNoise noise3D seed 70 80 seed * 0.8)),
      (''emission'', Num (perlinNoise noise3D seed 90 100 seed * 0.2)),
      (''atmosphere'', Num (perlinNoise noise3D seed 110 120 seed * 0.5)),
      (''atmosphereColor'', Color3 (perlinNoise noise3D seed 130 140 seed)
                                    (perlinNoise noise3D seed 150 160 seed)
                                    (perlinNoise noise3D seed 170 180 seed)),
      (''seaColor'', Color3 (perlinNoise noise3D seed 190 200 seed)
                             (perlinNoise noise3D seed 210 220 seed)
                             (perlinNoise noise3D seed 230 240 seed)),
      (''landPct'', Num (perlinNoise noise3D seed 250 260 seed * 0.8)),
      (''seed'', Num seed)]
   \<and> samples (snd (generatePlanetProperties_tr noise3D seed no_calls)) =
     [(seed, 10, 20, seed), (seed, 30, 40, seed), (seed, 50, 60, seed),
      (seed, 70, 80, seed), (seed, 90, 100, seed), (seed, 110, 120, seed),
      (seed, 130, 140, seed), (seed, 150, 160, seed), (seed, 170, 180, seed),
      (seed, 190, 200, seed), (seed, 210, 220, seed), (seed, 230, 240, seed),
      (seed, 250, 260, seed)]"
proof (rule conjI)
  show "samples (snd (generatePlanetProperties_tr noise3D seed no_calls)) =
     [(seed, 10, 20, seed), (seed, 30, 40, seed), (seed, 50, 60, seed),
      (seed, 70, 80, seed), (seed, 90, 100, seed), (seed, 110, 120, seed),
      (seed, 130, 140, seed), (seed, 150, 160, seed), (seed, 170, 180, seed),
      (seed, 190, 200, seed), (seed, 210, 220, seed), (seed, 230, 240, seed),
      (seed, 250, 260, seed)]"
    by (simp add: generatePlanetProperties_tr_samples no_calls_def)
qed (rule generatePlanetProperties_eq)

text \<open>
  C5. If every value of the primitive lies in \<open>[-1, 1]\<close>, then for every seed the
  returned object has its reflectance in \<open>[0, 0.8]\<close>, its emission in \<open>[0, 0.2]\<close>, its
  atmosphere thickness (the property \<open>atmosphere\<close>) in \<open>[0, 0.5]\<close>, its land fraction
  (the property \<open>landPct\<close>) in \<open>[0, 0.8]\<close>, and every channel of its three colours in
  \<open>[0, 1]\<close>.
\<close>

theorem generatePlanetProperties_ranges:
  assumes "\<forall>a b c. - 1 \<le> noise3D a b c \<and> noise3D a b c \<le> 1"
  shows "num_between (generatePlanetProperties noise3D seed) ''reflectance'' 0 0.8
       \<and> num_between (generatePlanetProperties noise3D seed) ''emission'' 0 0.2
       \<and> num_between (generatePlanetProperties noise3D seed) ''atmosphere'' 0 0.5
       \<and> num_between (generatePlanetProperties noise3D seed) ''landPct'' 0 0.8
       \<and> color_in_unit (generatePlanetProperties noise3D seed) ''baseColor''
       \<and> color_in_unit (generatePlanetProperties noise3D seed) ''atmosphereColor''
       \<and> color_in_unit (generatePlanetProperties noise3D seed) ''seaColor''"
proof -
  note u = perlinNoise_unit [OF assms]
  show ?thesis
    unfolding generatePlanetProperties_eq num_between_def color_in_unit_def property_def
    using u [of seed 10 20 seed] u [of seed 30 40 seed] u [of seed 50 60 seed]
      u [of seed 70 80 seed] u [of seed 90 100 seed] u [of seed 110 120 seed]
      u [of seed 130 140 seed] u [of seed 150 160 seed] u [of seed 170 180 seed]
      u [of seed 190 200 seed] u [of seed 210 220 seed] u [of seed 230 240 seed]
      u [of seed 250 260 seed]
    by simp
qed

theorem generatePlanetProperties_ranges_witness:
  "(\<forall>a b c. - 1 \<le> two_level a b c \<and> two_level a b c \<le> 1)
   \<and> num_between (generatePlanetProperties two_level 123) ''reflectance'' 0 0.8
   \<and> num_between (generatePlanetProperties two_level 123) ''emission'' 0 0.2
   \<and> num_between (generatePlanetProperties two_level 123) ''atmosphere'' 0 0.5
   \<and> num_between (generatePlanetProperties two_level 123) ''landPct'' 0 0.8
   \<and> color_in_unit (generatePlanetProperties two_level 123) ''baseColor''
   \<and> color_in_unit (generatePlanetProperties two_level 123) ''atmosphereColor''
   \<and> color_in_unit (generatePlanetProperties two_level 123) ''seaColor''
   \<and> property (generatePlanetProperties two_level 123) ''reflectance'' = Some (Num (3 / 5))"
proof -
  have v: "property (generatePlanetProperties two_level 123) ''reflectance'' = Some (Num (3 / 5))"
    by (simp add: generatePlanetProperties_eq property_def perlinNoise_closed two_level_def)
  show ?thesis
    using generatePlanetProperties_ranges [OF two_level_range, of 123] two_level_range v
    by simp
qed

text \<open>
  C6. The property \<open>seed\<close> of the returned object is the seed that was passed in.
\<close>

theorem generatePlanetProperties_seed_echo:
  "property (generatePlanetProperties noise3D seed) ''seed'' = Some (Num seed)"
  by (simp add: generatePlanetProperties_eq property_def)

text \<open>
  C7, as the specification states it: one call of \<open>generatePlanetProperties\<close> makes nine
  calls of \<open>perlinNoise\<close>, hence 36 evaluations of the primitive. The call for seed 123
  makes thirteen calls and 52 evaluations.
\<close>

theorem generatePlanetProperties_nine_samples_counterexample:
  "length (samples (snd (generatePlanetProperties_tr two_level 123 no_calls))) = 13
   \<and> length (evals (snd (generatePlanetProperties_tr two_level 123 no_calls))) = 52
   \<and> length (samples (snd (generatePlanetProperties_tr two_level 123 no_calls))) \<noteq> 9
   \<and> length (evals (snd (generatePlanetProperties_tr two_level 123 no_calls))) \<noteq> 36"
  by (simp add: generatePlanetProperties_tr_samples generatePlanetProperties_tr_evals no_calls_def)

text \<open>
  C7, amended: one call of \<open>generatePlanetProperties\<close> makes exactly thirteen calls of
  \<open>perlinNoise\<close>, at thirteen fixed offset pairs no two of which are equal, hence exactly
  13 * 4 = 52 evaluations of the primitive.
\<close>

theorem generatePlanetProperties_thirteen_samples:
  "length (samples (snd (generatePlanetProperties_tr noise3D seed no_calls))) = 13
   \<and> map (\<lambda>(x, y, z, s). (y, z)) (samples (snd (generatePlanetProperties_tr noise3D seed no_calls)))
       = [(10, 20), (30, 40), (50, 60), (70, 80), (90, 100), (110, 120), (130, 140),
          (150, 160), (170, 180), (190, 200), (210, 220), (230, 240), (250, 260)]
   \<and> distinct (map (\<lambda>(x, y, z, s). (y, z))
        (samples (snd (generatePlanetProperties_tr noise3D seed no_calls))))
   \<and> length (evals (snd (generatePlanetProperties_tr noise3D seed no_calls))) = 52"
  by (simp add: generatePlanetProperties_tr_samples generatePlanetProperties_tr_evals no_calls_def)

text \<open>
  C8, as the specification states it: the returned object has a property named
  \<open>atmosphereThickness\<close> and a property named \<open>landFraction\<close>. The object returned for
  seed 123 has neither.
\<close>

theorem generatePlanetProperties_names_counterexample:
  "property (generatePlanetProperties two_level 123) ''atmosphereThickness'' = None
   \<and> property (generatePlanetProperties two_level 123) ''landFraction'' = None"
  by (simp add: generatePlanetProperties_eq property_def)

text \<open>
  C8, amended: the returned object has exactly the properties \<open>baseColor\<close>,
  \<open>reflectance\<close>, \<open>emission\<close>, \<open>atmosphere\<close>, \<open>atmosphereColor\<close>, \<open>seaColor\<close>, \<open>landPct\<close>
  and \<open>seed\<close>. The atmosphere thickness is the property \<open>atmosphere\<close>, a number in
  \<open>[0, 0.5]\<close>, and the land fraction is the property \<open>landPct\<close>, a number in
  \<open>[0, 0.8]\<close>, if every value of the primitive lies in \<open>[-1, 1]\<close>.
\<close>

theorem generatePlanetProperties_names:
  assumes "\<forall>a b c. - 1 \<le> noise3D a b c \<and> noise3D a b c \<le> 1"
  shows "map fst (generatePlanetProperties noise3D seed) =
          [''baseColor'', ''reflectance'', ''emission'', ''atmosphere'', ''atmosphereColor'',
           ''seaColor'', ''landPct'', ''seed'']
       \<and> num_between (generatePlanetProperties noise3D seed) ''atmosphere'' 0 0.5
       \<and> num_between (generatePlanetProperties noise3D seed) ''landPct'' 0 0.8"
proof -
  note u = perlinNoise_unit [OF assms]
  show ?thesis
    unfolding generatePlanetProperties_eq num_between_def property_def
    using u [of seed 110 120 seed] u [of seed 250 260 seed]
    by simp
qed

theorem generatePlanetProperties_names_witness:
  "(\<forall>a b c. - 1 \<le> two_level a b c \<and> two_level a b c \<le> 1)
   \<and> map fst (generatePlanetProperties two_level 123) =
          [''baseColor'', ''reflectance'', ''emission'', ''atmosphere'', ''atmosphereColor'',
           ''seaColor'', ''landPct'', ''seed'']
   \<and> num_between (generatePlanetProperties two_level 123) ''atmosphere'' 0 0.5
   \<and> num_between (generatePlanetProperties two_level 123) ''landPct'' 0 0.8"
  using generatePlanetProperties_names [OF two_level_range, of 123] two_level_range
  by simp

section \<open>Evaluating the shader primitives\<close>

text \<open>On an integer, \<open>permute\<close> is \<open>(34 k + 1) k mod 289\<close>.\<close>

lemma permute_of_int: "permute (of_int k) = of_int (((k * 34 + 1) * k) mod 289)"
proof -
  have arg: "((real_of_int k * 34) + 1) * real_of_int k = real_of_int ((k * 34 + 1) * k)"
    by simp
  have red: "real_of_int m - real_of_int \<lfloor>real_of_int m * (1 / 289)\<rfloor> * 289
      = real_of_int (m mod 289)" for m :: int
  proof -
    have "\<lfloor>real_of_int m * (1 / 289)\<rfloor> = m div 289"
      by (simp add: floor_divide_of_int_eq [of m 289, simplified])
    then show ?thesis
      by (simp add: minus_div_mult_eq_mod [symmetric])
  qed
  from arg red show ?thesis
    by (simp only: permute_def mod289_vec3_def vec3s_def mul3s.simps floor3.simps sub3.simps
        vec3.sel)
qed

lemma permute_numeral:
  "permute (numeral n) = of_int (((numeral n * 34 + 1) * numeral n) mod 289)"
  using permute_of_int [of "numeral n"] by simp

lemma permute_0: "permute 0 = 0"
  using permute_of_int [of 0] by simp

lemma permute_1: "permute 1 = 35"
  using permute_of_int [of 1] by simp

text \<open>
  A local of a shader function is replaced by its value once the value is known: a
  vector of the constructor, or a fraction of numerals.
\<close>

lemma Let_Vec3: "Let (Vec3 a b c) f = f (Vec3 a b c)"
  by simp

lemma Let_Vec4: "Let (Vec4 a b c d) f = f (Vec4 a b c d)"
  by simp

lemma Let_fraction:
  "Let (numeral a / numeral b :: real) f = f (numeral a / numeral b)"
  "Let (1 / numeral b :: real) f = f (1 / numeral b)"
  "Let (- (numeral a / numeral b) :: real) f = f (- (numeral a / numeral b))"
  "Let (- (1 / numeral b) :: real) f = f (- (1 / numeral b))"
  by simp_all

lemmas glsl_eval = vec3s_def step_def mod289_vec3_def Let_Vec3 Let_Vec4 Let_fraction
  permute_numeral permute_0 permute_1

lemma snoise1_octave0: "snoise1 (Vec3 (2 / 5) (1 / 5) 0) = 0"
  supply TrueI [simproc del: let_simp]
  by (simp add: snoise1_def glsl_eval)

lemma snoise1_octave1: "snoise1 (Vec3 (4 / 5) (2 / 5) 0) = 129703 / 240"
  supply TrueI [simproc del: let_simp]
  by (simp add: snoise1_def glsl_eval)

lemma snoise1_octave2: "snoise1 (Vec3 (8 / 5) (4 / 5) 0) = 7063 / 240"
  supply TrueI [simproc del: let_simp]
  by (simp add: snoise1_def glsl_eval)

lemma snoise1_octave3: "snoise1 (Vec3 (16 / 5) (8 / 5) 0) = - (10577 / 120)"
  supply TrueI [simproc del: let_simp]
  by (simp add: snoise1_def glsl_eval)

lemma snoise2_octave0: "snoise2 (Vec3 (2 / 5) (1 / 5) 0) = 7707 / 2000"
  by code_simp

lemma snoise2_octave1: "snoise2 (Vec3 (4 / 5) (2 / 5) 0) = 7707 / 2000"
  by code_simp

lemma snoise2_octave2: "snoise2 (Vec3 (8 / 5) (4 / 5) 0) = 7707 / 2000"
  by code_simp

lemma snoise2_octave3: "snoise2 (Vec3 (16 / 5) (8 / 5) 0) = 7707 / 2000"
  by code_simp

lemma perlinNoise_frag1_at: "perlinNoise_frag1 (Vec3 4 2 0) 0 = 64423 / 900"
  by (simp add: perlinNoise_frag1_def perlinNoise_shader1_closed
      snoise1_octave0 snoise1_octave1 snoise1_octave2 snoise1_octave3)

lemma perlinNoise_frag2_at: "perlinNoise_frag2 (Vec3 4 2 0) 0 = 9707 / 4000"
  by (simp add: perlinNoise_frag2_def perlinNoise_shader2_closed
      snoise2_octave0 snoise2_octave1 snoise2_octave2 snoise2_octave3)

lemma dot3_self_nonneg: "0 \<le> dot3 v v"
  by (cases v) simp

lemma snoise2_nonneg: "0 \<le> snoise2 v"
  unfolding snoise2_def Let_def
  by (simp add: dot3_self_nonneg)


section \<open>The claims on the shaders\<close>

text \<open>
  C3, as the specification states it: the sampling function of the fragment shaders
  returns, for every coordinate and seed, what the host-side \<open>perlinNoise\<close> returns. At
  the coordinate \<open>(4, 2, 0)\<close> and seed 0 the shaders of the first variant return
  \<open>64423 / 900\<close> and those of the later variants \<open>9707 / 4000\<close>, both above 1, while the
  host-side function stays within \<open>[0, 1]\<close> for every primitive whose values lie in the
  native range \<open>[-1, 1]\<close>: no such primitive makes the host agree with either shader.
\<close>

theorem shader_host_equal_counterexample:
  "perlinNoise_frag1 (Vec3 4 2 0) 0 = 64423 / 900
   \<and> perlinNoise_frag2 (Vec3 4 2 0) 0 = 9707 / 4000
   \<and> \<not> (\<exists>noise3D. (\<forall>a b c. - 1 \<le> noise3D a b c \<and> noise3D a b c \<le> 1)
          \<and> perlinNoise noise3D 4 2 0 0 = perlinNoise_frag1 (Vec3 4 2 0) 0)
   \<and> \<not> (\<exists>noise3D. (\<forall>a b c. - 1 \<le> noise3D a b c \<and> noise3D a b c \<le> 1)
          \<and> perlinNoise noise3D 4 2 0 0 = perlinNoise_frag2 (Vec3 4 2 0) 0)"
proof -
  have le: "perlinNoise noise3D 4 2 0 0 \<le> 1"
    if "\<forall>a b c. - 1 \<le> noise3D a b c \<and> noise3D a b c \<le> 1" for noise3D
    using perlinNoise_unit [OF that, of 4 2 0 0] by simp
  have "\<not> (\<exists>noise3D. (\<forall>a b c. - 1 \<le> noise3D a b c \<and> noise3D a b c \<le> 1)
          \<and> perlinNoise noise3D 4 2 0 0 = perlinNoise_frag1 (Vec3 4 2 0) 0)"
  proof
    assume "\<exists>noise3D. (\<forall>a b c. - 1 \<le> noise3D a b c \<and> noise3D a b c \<le> 1)
          \<and> perlinNoise noise3D 4 2 0 0 = perlinNoise_frag1 (Vec3 4 2 0) 0"
    then obtain n where r: "\<forall>a b c. - 1 \<le> n a b c \<and> n a b c \<le> 1"
      and e: "perlinNoise n 4 2 0 0 = perlinNoise_frag1 (Vec3 4 2 0) 0"
      by blast
    from le [OF r] e show False
      by (simp add: perlinNoise_frag1_at)
  qed
  moreover have "\<not> (\<exists>noise3D. (\<forall>a b c. - 1 \<le> noise3D a b c \<and> noise3D a b c \<le> 1)
          \<and> perlinNoise noise3D 4 2 0 0 = perlinNoise_frag2 (Vec3 4 2 0) 0)"
  proof
    assume "\<exists>noise3D. (\<forall>a b c. - 1 \<le> noise3D a b c \<and> noise3D a b c \<le> 1)
          \<and> perlinNoise noise3D 4 2 0 0 = perlinNoise_frag2 (Vec3 4 2 0) 0"
    then obtain n where r: "\<forall>a b c. - 1 \<le> n a b c \<and> n a b c \<le> 1"
      and e: "perlinNoise n 4 2 0 0 = perlinNoise_frag2 (Vec3 4 2 0) 0"
      by blast
    from le [OF r] e show False
      by (simp add: perlinNoise_frag2_at)
  qed
  ultimately show ?thesis
    using perlinNoise_frag1_at perlinNoise_frag2_at by blast
qed

text \<open>
  C3, amended: the shader-side sampling functions are the same four-octave computation
  as the host-side \<open>perlinNoise\<close>, operation for operation: run in one and the same
  arithmetic (one rounding of every result) and over one and the same primitive, the
  shader function of either variant and the host function return the same value for
  every coordinate and seed. (As the program runs them they are not the same function:
  the shaders compute in 32-bit floats over their own \<open>snoise\<close>, the host in doubles over
  the library's \<open>noise3D\<close>.)
\<close>

theorem shader_host_same_formula:
  "perlinNoise_shader1_fl rnd sn p seed
     = perlinNoise_fl rnd (\<lambda>x y z. sn (Vec3 x y z)) (vx p) (vy p) (vz p) seed
   \<and> perlinNoise_shader2_fl rnd sn p seed
     = perlinNoise_fl rnd (\<lambda>x y z. sn (Vec3 x y z)) (vx p) (vy p) (vz p) seed"
proof
  show "perlinNoise_shader1_fl rnd sn p seed
     = perlinNoise_fl rnd (\<lambda>x y z. sn (Vec3 x y z)) (vx p) (vy p) (vz p) seed"
    by (simp add: perlinNoise_shader1_fl_def perlinNoise_fl_def
        perlinNoise_shader1_fl_loop_host)
  show "perlinNoise_shader2_fl rnd sn p seed
     = perlinNoise_fl rnd (\<lambda>x y z. sn (Vec3 x y z)) (vx p) (vy p) (vz p) seed"
    by (cases p)
      (simp add: perlinNoise_shader2_fl_def perlinNoise_fl_def vec3s_def
        perlinNoise_shader2_fl_loop_host)
qed


text \<open>
  C10. The \<open>snoise\<close> of the later variants' shaders is 42 times a dot product of two
  vectors with no negative component, so it is never negative; hence the sampling
  function of these shaders is at least \<open>0.5\<close> for every coordinate and seed.
\<close>

theorem perlinNoise_frag2_upper_half:
  "0 \<le> snoise2 v \<and> 1 / 2 \<le> perlinNoise_frag2 p seed"
proof -
  let ?q = "\<lambda>k. Vec3 ((vx p * 0.1 + seed) * k) ((vy p * 0.1 + seed) * k) ((vz p * 0.1 + seed) * k)"
  have "0 \<le> snoise2 (Vec3 (vx p * 0.1 + seed) (vy p * 0.1 + seed) (vz p * 0.1 + seed))"
    "0 \<le> snoise2 (?q 2)" "0 \<le> snoise2 (?q 4)" "0 \<le> snoise2 (?q 8)"
    by (rule snoise2_nonneg)+
  then have "1 / 2 \<le> perlinNoise_frag2 p seed"
    unfolding perlinNoise_frag2_def perlinNoise_shader2_closed by simp
  with snoise2_nonneg show ?thesis
    by simp
qed

end
